theory Spec2Isabelle
  imports Main "HOL-Library.Sublist"
begin

section \<open>Values received from the backend\<close>

text \<open>
  The component \<^verbatim>\<open>src/components/MKTAI.tsx\<close> receives its data as parsed JSON.
  Where the code inspects a value dynamically (\<^verbatim>\<open>typeof\<close>, \<^verbatim>\<open>Array.isArray\<close>,
  truthiness), the value is modelled as a \<open>jsval\<close>. A JavaScript string is the list of
  its code units; the model represents the code units below 256 by \<open>char\<close>.
  An object is the list of its own properties, each name once; reading a property that
  is not there gives \<open>undefined\<close>.
\<close>

datatype jsval =
    JUndefined
  | JNull
  | JBool bool
  | JNum int
  | JStr string
  | JArr "jsval list"
  | JObj "(string \<times> jsval) list"

fun truthy :: "jsval \<Rightarrow> bool" where
  "truthy JUndefined = False"
| "truthy JNull = False"
| "truthy (JBool b) = b"
| "truthy (JNum n) = (n \<noteq> 0)"
| "truthy (JStr s) = (s \<noteq> [])"
| "truthy (JArr xs) = True"
| "truthy (JObj kvs) = True"

fun typeof :: "jsval \<Rightarrow> string" where
  "typeof JUndefined = ''undefined''"
| "typeof JNull = ''object''"
| "typeof (JBool b) = ''boolean''"
| "typeof (JNum n) = ''number''"
| "typeof (JStr s) = ''string''"
| "typeof (JArr xs) = ''object''"
| "typeof (JObj kvs) = ''object''"

fun isArray :: "jsval \<Rightarrow> bool" where
  "isArray (JArr xs) = True"
| "isArray v = False"

text \<open>
  \<open>js_get v k\<close> is the property read \<^verbatim>\<open>v.k\<close> for the names the component reads
  (\<^verbatim>\<open>NutritionFacts\<close>, \<^verbatim>\<open>IngredientList\<close>). Neither name is a property of an
  array, a string, a number or a boolean, so the read gives \<open>undefined\<close> there. On
  \<^verbatim>\<open>null\<close> and \<^verbatim>\<open>undefined\<close> the read throws; every read in the component
  is guarded by a test that excludes both.
\<close>

fun js_get :: "jsval \<Rightarrow> string \<Rightarrow> jsval" where
  "js_get (JObj kvs) k = (case map_of kvs k of Some v \<Rightarrow> v | None \<Rightarrow> JUndefined)"
| "js_get v k = JUndefined"

definition js_or :: "jsval \<Rightarrow> jsval \<Rightarrow> jsval" where
  "js_or a b = (if truthy a then a else b)"

definition js_find :: "(jsval \<Rightarrow> bool) \<Rightarrow> jsval list \<Rightarrow> jsval" where
  "js_find p xs = (case find p xs of Some x \<Rightarrow> x | None \<Rightarrow> JUndefined)"

section \<open>The subject selector: \<^verbatim>\<open>getValidProduct\<close>\<close>

text \<open>The callback of \<^verbatim>\<open>input.find\<close> (lines 57 to 62).\<close>

definition qualifies :: "jsval \<Rightarrow> bool" where
  "qualifies item =
     (typeof item = ''object'' \<and>
      item \<noteq> JNull \<and>
      \<not> isArray item \<and>
      (typeof (js_get item ''NutritionFacts'') = ''object'' \<or>
       typeof (js_get item ''IngredientList'') = ''object''))"

definition getValidProduct :: "jsval \<Rightarrow> jsval" where
  "getValidProduct input =
     (if \<not> truthy input then JNull
      else if \<not> isArray input then input
      else (case input of JArr xs \<Rightarrow> js_or (js_find qualifies xs) JNull | _ \<Rightarrow> JNull))"

text \<open>
  The selector as the specification words it: the first element that is a non-array
  object exposing either a nutrition-facts mapping or an ingredient list. A mapping is
  an object that is neither \<^verbatim>\<open>null\<close> nor an array; a list is an array.
\<close>

fun is_mapping :: "jsval \<Rightarrow> bool" where
  "is_mapping (JObj kvs) = True"
| "is_mapping v = False"

definition exposes_subject_data :: "jsval \<Rightarrow> bool" where
  "exposes_subject_data item =
     (is_mapping item \<and>
      (is_mapping (js_get item ''NutritionFacts'') \<or> isArray (js_get item ''IngredientList'')))"

definition subject_selector_spec :: "jsval \<Rightarrow> jsval option" where
  "subject_selector_spec subject =
     (case subject of
        JObj kvs \<Rightarrow> Some (JObj kvs)
      | JArr xs \<Rightarrow> find exposes_subject_data xs
      | _ \<Rightarrow> None)"

section \<open>Strings\<close>

text \<open>
  \<^verbatim>\<open>Date.now().toString()\<close>: the decimal rendering of a non-negative integer.
\<close>

definition digit_char :: "nat \<Rightarrow> char" where
  "digit_char d = ''0123456789'' ! d"

fun dec :: "nat \<Rightarrow> string" where
  "dec n = (if n < 10 then [digit_char n] else dec (n div 10) @ [digit_char (n mod 10)])"

declare dec.simps [simp del]

text \<open>
  \<^verbatim>\<open>s.split('. ')\<close>: the pieces of \<open>s\<close> between the occurrences of a full stop followed
  by a space, found from left to right without overlap. The first argument holds, in
  reverse, the characters of the piece being read.
\<close>

fun split_dot_space :: "string \<Rightarrow> string \<Rightarrow> string list" where
  "split_dot_space cur [] = [rev cur]"
| "split_dot_space cur [c] = [rev (c # cur)]"
| "split_dot_space cur (c # d # rest) =
     (if c = CHR ''.'' \<and> d = CHR '' ''
      then rev cur # split_dot_space [] rest
      else split_dot_space (c # cur) (d # rest))"

text \<open>
  \<^verbatim>\<open>s.trim()\<close> removes white space and line terminators from both ends. Among the
  code units below 256 these are tab, line feed, vertical tab, form feed, carriage
  return, space and the no-break space.
\<close>

definition is_js_space :: "char \<Rightarrow> bool" where
  "is_js_space c =
     (c \<in> set [CHR 0x09, CHR 0x0A, CHR 0x0B, CHR 0x0C, CHR 0x0D, CHR 0x20, CHR 0xA0])"

definition trim :: "string \<Rightarrow> string" where
  "trim s = rev (dropWhile is_js_space (rev (dropWhile is_js_space s)))"

section \<open>The data model\<close>

record UserProfile =
  allergies :: "string list"
  conditions :: "string list"
  goals :: "string list"

text \<open>
  \<^verbatim>\<open>interface AgentResponse\<close>, also read at \<^verbatim>\<open>Partial<AgentResponse>\<close>: every
  property may be missing (\<open>None\<close>). \<^verbatim>\<open>image_data\<close> may be present and
  \<^verbatim>\<open>null\<close> (\<open>Some None\<close>); \<^verbatim>\<open>product_json\<close> is inspected dynamically and is
  kept as the value received.
\<close>

record AgentResponse =
  user_query :: "string option"
  user_profile :: "UserProfile option"
  image_data :: "string option option"
  product_json :: "jsval option"
  plan :: "string option"
  search_needed :: "bool option"
  search_queries :: "string list option"
  search_results :: "string option"
  final_verdict :: "string option"
  reasoning :: "string option"
  next_suggestion :: "string list option"
  suggested_next_steps :: "string list option"
  conversation_summary :: "string option"

datatype role = User | Agent

record Message =
  msg_id :: string
  msg_type :: role
  content :: string
  agentResponse :: "AgentResponse option"
  timestamp :: nat
  isStreaming :: "bool option"

definition DEFAULT_PROFILE :: UserProfile where
  "DEFAULT_PROFILE = \<lparr>allergies = [], conditions = [], goals = []\<rparr>"

text \<open>The object \<^verbatim>\<open>{}\<close>: no property is present.\<close>

definition empty_payload :: AgentResponse where
  "empty_payload =
     \<lparr>user_query = None, user_profile = None, image_data = None, product_json = None,
      plan = None, search_needed = None, search_queries = None, search_results = None,
      final_verdict = None, reasoning = None, next_suggestion = None,
      suggested_next_steps = None, conversation_summary = None\<rparr>"

text \<open>The state of the component \<^verbatim>\<open>MKTAI\<close> (its \<^verbatim>\<open>useState\<close> cells).\<close>

record ui_state =
  messages :: "Message list"
  inputValue :: string
  isProcessing :: bool
  currentProcessLog :: string
  userProfile :: UserProfile

definition initial_state :: ui_state where
  "initial_state =
     \<lparr>messages = [], inputValue = [], isProcessing = False, currentProcessLog = [],
      userProfile = DEFAULT_PROFILE\<rparr>"

section \<open>Reading a payload\<close>


text \<open>
  \<^verbatim>\<open>suggestions\<close> (lines 137 to 139). An array is truthy also when it is empty, so
  \<^verbatim>\<open>data.suggested_next_steps &&\<close> tests that the property is there, and
  \<^verbatim>\<open>data.next_suggestion || []\<close> replaces a missing property only.
\<close>

definition suggestions :: "AgentResponse \<Rightarrow> string list" where
  "suggestions data =
     (if (case suggested_next_steps data of Some s \<Rightarrow> length s > 0 | None \<Rightarrow> False)
      then (case suggested_next_steps data of Some s \<Rightarrow> s | None \<Rightarrow> [])
      else (case next_suggestion data of Some n \<Rightarrow> n | None \<Rightarrow> []))"

text \<open>
  \<^verbatim>\<open>planStepCount\<close> and \<^verbatim>\<open>animationTime\<close> (lines 438 and 439). A string is
  truthy when it is not empty.
\<close>

definition planStepCount :: "AgentResponse \<Rightarrow> nat" where
  "planStepCount data =
     (case plan data of
        Some p \<Rightarrow> if p \<noteq> [] then min (length (split_dot_space [] p)) 5 else 3
      | None \<Rightarrow> 3)"

definition animationTime :: "AgentResponse \<Rightarrow> nat" where
  "animationTime data = min (max (planStepCount data * 1000) 3000) 8000"


section \<open>The turn record store\<close>

text \<open>
  The object spread \<^verbatim>\<open>{ ...a, ...updates }\<close>, property by property: a property of
  \<open>updates\<close> replaces the one of \<open>a\<close>, a property that \<open>updates\<close> lacks is kept.
\<close>

definition spread :: "'a option \<Rightarrow> 'a option \<Rightarrow> 'a option" where
  "spread old new = (case new of Some v \<Rightarrow> Some v | None \<Rightarrow> old)"

definition merge_payload :: "AgentResponse \<Rightarrow> AgentResponse \<Rightarrow> AgentResponse" where
  "merge_payload a updates =
     \<lparr>user_query = spread (user_query a) (user_query updates),
      user_profile = spread (user_profile a) (user_profile updates),
      image_data = spread (image_data a) (image_data updates),
      product_json = spread (product_json a) (product_json updates),
      plan = spread (plan a) (plan updates),
      search_needed = spread (search_needed a) (search_needed updates),
      search_queries = spread (search_queries a) (search_queries updates),
      search_results = spread (search_results a) (search_results updates),
      final_verdict = spread (final_verdict a) (final_verdict updates),
      reasoning = spread (reasoning a) (reasoning updates),
      next_suggestion = spread (next_suggestion a) (next_suggestion updates),
      suggested_next_steps = spread (suggested_next_steps a) (suggested_next_steps updates),
      conversation_summary = spread (conversation_summary a) (conversation_summary updates)\<rparr>"

text \<open>\<^verbatim>\<open>updateAgentMsg\<close> (lines 338 to 344), as the function handed to \<^verbatim>\<open>setMessages\<close>.\<close>

definition updateAgentMsg :: "string \<Rightarrow> AgentResponse \<Rightarrow> Message list \<Rightarrow> Message list" where
  "updateAgentMsg i updates prev =
     map (\<lambda>m. if msg_id m = i
              then m\<lparr>agentResponse :=
                       Some (merge_payload
                               (case agentResponse m of Some a \<Rightarrow> a | None \<Rightarrow> empty_payload)
                               updates),
                     isStreaming := Some False\<rparr>
              else m) prev"

section \<open>The memory window\<close>

text \<open>
  Lines 383 to 396: the value of \<^verbatim>\<open>memoryContext\<close> for the log \<^verbatim>\<open>messages\<close>.
  \<^verbatim>\<open>messages.slice(-6)\<close> keeps the last six entries, or all of them when there are
  fewer. \<open>context_line m\<close> is what the body of \<^verbatim>\<open>forEach\<close> appends for the turn
  \<open>m\<close>: nothing for an agent turn without a payload.
\<close>

definition context_line :: "Message \<Rightarrow> string" where
  "context_line m =
     (if msg_type m = User then ''User: '' @ content m @ [CHR 0x0A]
      else (case agentResponse m of
              Some a \<Rightarrow>
                ''AI Verdict: '' @
                (case final_verdict a of
                   Some v \<Rightarrow> if v \<noteq> [] then v else ''Unknown''
                 | None \<Rightarrow> ''Unknown'') @ [CHR 0x0A]
            | None \<Rightarrow> []))"

definition buildContext :: "Message list \<Rightarrow> string" where
  "buildContext msgs =
     (if length msgs > 0
      then foldl (\<lambda>memoryContext m. memoryContext @ context_line m)
             (''PREVIOUS CONVERSATION CONTEXT:'' @ [CHR 0x0A])
             (drop (length msgs - 6) msgs)
           @ ([CHR 0x0A] @ ''CURRENT QUESTION:'' @ [CHR 0x0A])
      else [])"

section \<open>The request dispatcher\<close>

typedecl File

record agent_state =
  req_user_query :: string
  req_user_profile :: UserProfile
  req_image_data :: "string option"
  req_next_suggestion :: "string list"

record request =
  state_json :: agent_state
  file_part :: "File option"

text \<open>
  \<^verbatim>\<open>sendPromptToBackend\<close> up to the call of \<^verbatim>\<open>fetch\<close> (lines 359 to 422).
  \<open>now1\<close> and \<open>now2\<close> are the readings of \<^verbatim>\<open>Date.now()\<close> at lines 362 and 370.
  \<open>date1\<close> and \<open>date2\<close> are the readings of \<^verbatim>\<open>new Date()\<close> at lines 367 and 379,
  taken when the functions handed to \<^verbatim>\<open>setMessages\<close> run. The result is the new
  state, the identifier of the agent turn and the request sent.
\<close>

definition sendPromptToBackend_start ::
  "nat \<Rightarrow> nat \<Rightarrow> nat \<Rightarrow> nat \<Rightarrow> string \<Rightarrow> string option \<Rightarrow> File option \<Rightarrow> ui_state
     \<Rightarrow> ui_state \<times> string \<times> request" where
  "sendPromptToBackend_start now1 date1 now2 date2 prompt imageData file st =
     (let userMsgId = dec now1;
          agentMsgId = dec (now2 + 1);
          userMsg = \<lparr>msg_id = userMsgId, msg_type = User,
                     content = (if prompt \<noteq> [] then prompt else []),
                     agentResponse = None, timestamp = date1, isStreaming = None\<rparr>;
          agentMsg = \<lparr>msg_id = agentMsgId, msg_type = Agent, content = [],
                      agentResponse =
                        Some (empty_payload\<lparr>user_query := Some prompt,
                                             image_data := Some imageData\<rparr>),
                      timestamp = date2, isStreaming = Some True\<rparr>;
          memoryContext = buildContext (messages st);
          finalPromptToSend =
            (if memoryContext \<noteq> [] then memoryContext @ prompt else prompt);
          agentState = \<lparr>req_user_query = finalPromptToSend,
                        req_user_profile = userProfile st,
                        req_image_data = None,
                        req_next_suggestion = []\<rparr>
      in (st\<lparr>isProcessing := True,
             currentProcessLog := ''Analyzing request...'',
             messages := (messages st @ [userMsg]) @ [agentMsg]\<rparr>,
          agentMsgId,
          \<lparr>state_json = agentState, file_part = file\<rparr>))"

text \<open>
  What \<^verbatim>\<open>await fetch(...)\<close> gives: the call rejects with an error of the given
  message, or it resolves to a response with a status and a body. The body is read by
  \<^verbatim>\<open>res.json()\<close>, which rejects with an error (\<open>Inl\<close> its message) when the body
  is not JSON and gives the parsed value otherwise. \<^verbatim>\<open>res.ok\<close> holds for the
  statuses 200 to 299.
\<close>

datatype 'b fetch_result =
    FetchRejected string
  | Responded nat "string + 'b"

definition res_ok :: "nat \<Rightarrow> bool" where
  "res_ok status = (200 \<le> status \<and> status \<le> 299)"

text \<open>
  Lines 416 to 429: the error thrown in the \<^verbatim>\<open>try\<close> block (\<open>Inl\<close> its message) or
  the parsed body. \<^verbatim>\<open>JSON.stringify\<close> is the parameter \<open>stringify\<close>.
\<close>

definition await_response :: "('b \<Rightarrow> string) \<Rightarrow> 'b fetch_result \<Rightarrow> string + 'b" where
  "await_response stringify r =
     (case r of
        FetchRejected msg \<Rightarrow> Inl msg
      | Responded status body \<Rightarrow>
          if \<not> res_ok status
          then (case body of
                  Inl msg \<Rightarrow> Inl msg
                | Inr errorDetail \<Rightarrow>
                    Inl (''Server Error '' @ dec status @ '': '' @ stringify errorDetail))
          else body)"

text \<open>The update of the \<^verbatim>\<open>catch\<close> block (lines 450 to 454).\<close>

definition fallback_payload :: "string \<Rightarrow> AgentResponse" where
  "fallback_payload message =
     empty_payload\<lparr>final_verdict := Some ''CAUTION'',
                   reasoning := Some (''Error connecting to AI Server: '' @ message @ ''.''),
                   product_json := Some JNull\<rparr>"

text \<open>The callback of \<^verbatim>\<open>setTimeout\<close> (lines 443 to 446).\<close>

definition processing_timeout :: "ui_state \<Rightarrow> ui_state" where
  "processing_timeout st = st\<lparr>isProcessing := False, currentProcessLog := []\<rparr>"

text \<open>
  The \<^verbatim>\<open>catch\<close> block (lines 448 to 457) for an error of the given message.
\<close>

definition catch_block :: "string \<Rightarrow> string \<Rightarrow> ui_state \<Rightarrow> ui_state" where
  "catch_block agentMsgId message st =
     st\<lparr>messages := updateAgentMsg agentMsgId (fallback_payload message) (messages st),
        isProcessing := False,
        currentProcessLog := []\<rparr>"

text \<open>
  What the code meets in the parsed body of a successful response, which it uses at the
  type \<^verbatim>\<open>AgentResponse\<close> without a test (line 429).
  \<^item> \<open>NullBody w r\<close>: the body is \<^verbatim>\<open>null\<close>. Writing a property of it throws the
    \<^verbatim>\<open>TypeError\<close> of message \<open>w\<close>, reading one throws that of message \<open>r\<close>.
  \<^item> \<open>PrimitiveBody w\<close>: the body is a number, a string or a boolean. Reading one of
    the declared properties gives \<^verbatim>\<open>undefined\<close>; writing a property throws the
    \<^verbatim>\<open>TypeError\<close> of message \<open>w\<close>, the code of a module being strict.
  \<^item> \<open>ObjectBody data odd_plan\<close>: the body is an object, and \<open>data\<close> holds its properties.
    \<open>odd_plan\<close> is \<open>Some m\<close> when \<^verbatim>\<open>plan\<close> is truthy but not a string, so that
    \<^verbatim>\<open>data.plan.split\<close> is not a function and the call at line 438 throws the
    \<^verbatim>\<open>TypeError\<close> of message \<open>m\<close>.
\<close>

datatype parsed_body =
    NullBody string string
  | PrimitiveBody string
  | ObjectBody AgentResponse "string option"

text \<open>
  Lines 435 to 446, for a body whose properties can be read: the profile is replaced,
  the payload is merged, and then either the timer is set or, with an odd plan, the
  \<^verbatim>\<open>catch\<close> block runs on the state reached.
\<close>

definition merge_answer ::
  "string \<Rightarrow> AgentResponse \<Rightarrow> string option \<Rightarrow> ui_state \<Rightarrow> ui_state \<times> nat option" where
  "merge_answer agentMsgId data odd_plan st =
     (let st1 = (case user_profile data of
                   Some p \<Rightarrow> st\<lparr>userProfile := p\<rparr>
                 | None \<Rightarrow> st);
          st2 = st1\<lparr>messages := updateAgentMsg agentMsgId data (messages st1)\<rparr>
      in case odd_plan of
           Some message \<Rightarrow> (catch_block agentMsgId message st2, None)
         | None \<Rightarrow>
             (st2\<lparr>currentProcessLog := ''Cross-referencing safety guidelines...''\<rparr>,
              Some (animationTime data)))"

text \<open>
  \<^verbatim>\<open>sendPromptToBackend\<close> from the answer of \<^verbatim>\<open>fetch\<close> on (lines 424 to 457).
  \<open>as_data\<close> tells what the parsed body is. The result is the new state and the delay
  handed to \<^verbatim>\<open>setTimeout\<close>, if a timer is set.
\<close>

definition sendPromptToBackend_settle ::
  "('b \<Rightarrow> string) \<Rightarrow> ('b \<Rightarrow> parsed_body) \<Rightarrow> string \<Rightarrow> string option
     \<Rightarrow> 'b fetch_result \<Rightarrow> ui_state \<Rightarrow> ui_state \<times> nat option" where
  "sendPromptToBackend_settle stringify as_data agentMsgId imageData r st =
     (case await_response stringify r of
        Inr body \<Rightarrow>
          (case as_data body of
             NullBody w rd \<Rightarrow>
               (case imageData of
                  Some i \<Rightarrow> (catch_block agentMsgId (if i \<noteq> [] then w else rd) st, None)
                | None \<Rightarrow> (catch_block agentMsgId rd st, None))
           | PrimitiveBody w \<Rightarrow>
               (case imageData of
                  Some i \<Rightarrow> if i \<noteq> [] then (catch_block agentMsgId w st, None)
                            else merge_answer agentMsgId empty_payload None st
                | None \<Rightarrow> merge_answer agentMsgId empty_payload None st)
           | ObjectBody data0 odd_plan \<Rightarrow>
               merge_answer agentMsgId
                 (case imageData of
                    Some i \<Rightarrow> if i \<noteq> [] then data0\<lparr>image_data := Some (Some i)\<rparr> else data0
                  | None \<Rightarrow> data0)
                 odd_plan st)
      | Inl message \<Rightarrow> (catch_block agentMsgId message st, None))"

text \<open>\<^verbatim>\<open>handleSubmit\<close> (lines 460 to 466): the new state and the request sent, if any.\<close>

definition handleSubmit ::
  "nat \<Rightarrow> nat \<Rightarrow> nat \<Rightarrow> nat \<Rightarrow> ui_state \<Rightarrow> ui_state \<times> request option" where
  "handleSubmit now1 date1 now2 date2 st =
     (if trim (inputValue st) \<noteq> [] \<and> \<not> isProcessing st
      then (case sendPromptToBackend_start now1 date1 now2 date2 (inputValue st) None None st of
              (st1, agentMsgId, req) \<Rightarrow> (st1\<lparr>inputValue := []\<rparr>, Some req))
      else (st, None))"

section \<open>Sequences of turns\<close>

text \<open>
  One submitted action, run to its end: the four clock readings, the text, the image
  preview and the file of the call, and what \<^verbatim>\<open>fetch\<close> answered. The action appends
  its pair of turns, merges the answer into its own agent turn, and on success the
  timer it set fires.
\<close>

record 'b turn =
  t_now1 :: nat
  t_date1 :: nat
  t_now2 :: nat
  t_date2 :: nat
  t_prompt :: string
  t_image :: "string option"
  t_file :: "File option"
  t_answer :: "'b fetch_result"

definition play_turn ::
  "('b \<Rightarrow> string) \<Rightarrow> ('b \<Rightarrow> parsed_body) \<Rightarrow> ui_state \<Rightarrow> 'b turn \<Rightarrow> ui_state" where
  "play_turn stringify as_data st x =
     (case sendPromptToBackend_start (t_now1 x) (t_date1 x) (t_now2 x) (t_date2 x)
             (t_prompt x) (t_image x) (t_file x) st of
        (st1, agentMsgId, req) \<Rightarrow>
          (case sendPromptToBackend_settle stringify as_data agentMsgId (t_image x) (t_answer x) st1 of
             (st2, Some delay) \<Rightarrow> processing_timeout st2
           | (st2, None) \<Rightarrow> st2))"

definition play_turns ::
  "('b \<Rightarrow> string) \<Rightarrow> ('b \<Rightarrow> parsed_body) \<Rightarrow> 'b turn list \<Rightarrow> ui_state" where
  "play_turns stringify as_data xs = foldl (play_turn stringify as_data) initial_state xs"


text \<open>The user turn and the agent turn as line 363 and line 371 create them.\<close>

definition user_turn :: "nat \<Rightarrow> nat \<Rightarrow> string \<Rightarrow> Message" where
  "user_turn now1 date1 prompt =
     \<lparr>msg_id = dec now1, msg_type = User, content = prompt, agentResponse = None,
      timestamp = date1, isStreaming = None\<rparr>"

definition pending_agent_turn :: "nat \<Rightarrow> nat \<Rightarrow> string \<Rightarrow> string option \<Rightarrow> Message" where
  "pending_agent_turn now2 date2 prompt imageData =
     \<lparr>msg_id = dec (now2 + 1), msg_type = Agent, content = [],
      agentResponse =
        Some (empty_payload\<lparr>user_query := Some prompt, image_data := Some imageData\<rparr>),
      timestamp = date2, isStreaming = Some True\<rparr>"


section \<open>The reveal scheduler\<close>

text \<open>
  Timers are pending calls of \<^verbatim>\<open>setTimeout\<close>, each with the time at which it is
  due, in the order of their creation. \<open>ClearProcessing\<close> is the timer of line 443;
  \<open>Reveal k\<close> is the timer set by the effect of the \<^verbatim>\<open>AgentResponseView\<close> that
  shows entry \<open>k\<close> of the log (line 143). The world holds the state of \<^verbatim>\<open>MKTAI\<close>,
  the clock of the timers, the pending timers, and for each entry of the log the local
  state of its view.
\<close>

datatype timer = ClearProcessing | Reveal nat

record view_state =
  showResults :: bool
  isExpanded :: bool

text \<open>The state of a view when it is mounted (lines 128 and 129).\<close>

definition mounted_view :: view_state where
  "mounted_view = \<lparr>showResults = False, isExpanded = True\<rparr>"

record world =
  ui :: ui_state
  clock :: nat
  timers :: "(nat \<times> timer) list"
  views :: "nat \<Rightarrow> view_state"


text \<open>
  Entry \<open>k\<close> of the log is shown by an \<^verbatim>\<open>AgentResponseView\<close> when it is not a user
  turn and carries a payload (lines 562 to 589). The dependencies of the effect of that
  view are \<^verbatim>\<open>isProcessing\<close> and the \<^verbatim>\<open>final_verdict\<close> of the payload (line 150);
  \<open>None\<close> says that the entry has no view.
\<close>

definition view_deps :: "ui_state \<Rightarrow> nat \<Rightarrow> (bool \<times> string option) option" where
  "view_deps st k =
     (if k < length (messages st) \<and> msg_type (messages st ! k) = Agent
      then (case agentResponse (messages st ! k) of
              Some data \<Rightarrow> Some (isProcessing st, final_verdict data)
            | None \<Rightarrow> None)
      else None)"

text \<open>
  The effect of the view of entry \<open>k\<close> after a render (lines 141 to 150), on the list
  of pending timers. \<open>old\<close> is the state at the render before, \<open>new\<close> the state
  rendered now. When the dependencies are as before, nothing happens. Otherwise the
  cleanup of the last run clears the timer that run has set, and the effect runs: it
  sets a timer of 1500 when \<^verbatim>\<open>isProcessing\<close> is clear and the verdict is truthy.
\<close>

definition effect_of_view ::
  "ui_state \<Rightarrow> ui_state \<Rightarrow> nat \<Rightarrow> (nat \<times> timer) list \<Rightarrow> nat \<Rightarrow> (nat \<times> timer) list" where
  "effect_of_view old new now ts k =
     (if view_deps new k = view_deps old k then ts
      else (let cleared = filter (\<lambda>(due, t). t \<noteq> Reveal k) ts
            in case view_deps new k of
                 Some (processing, verdict) \<Rightarrow>
                   if \<not> processing \<and> (case verdict of Some v \<Rightarrow> v \<noteq> [] | None \<Rightarrow> False)
                   then cleared @ [(now + 1500, Reveal k)]
                   else cleared
               | None \<Rightarrow> cleared))"

text \<open>
  After a change of state the component is rendered again: a view that appears is
  mounted, and the effects of the views run in the order of the log.
\<close>

definition rerender :: "ui_state \<Rightarrow> world \<Rightarrow> world" where
  "rerender old w =
     w\<lparr>timers :=
         foldl (effect_of_view old (ui w) (clock w)) (timers w)
           [0..<length (messages (ui w))],
       views :=
         (\<lambda>k. if view_deps old k = None \<and> view_deps (ui w) k \<noteq> None
              then mounted_view else views w k)\<rparr>"


text \<open>The answer of \<^verbatim>\<open>fetch\<close> arrives:\<close>

definition world_settle ::
  "('b \<Rightarrow> string) \<Rightarrow> ('b \<Rightarrow> parsed_body) \<Rightarrow> string \<Rightarrow> string option \<Rightarrow> nat
     \<Rightarrow> 'b fetch_result \<Rightarrow> world \<Rightarrow> world" where
  "world_settle stringify as_data agentMsgId imageData at r w =
     (case sendPromptToBackend_settle stringify as_data agentMsgId imageData r (ui w) of
        (st, Some delay) \<Rightarrow>
          rerender (ui w)
            (w\<lparr>clock := at, ui := st,
               timers := timers w @ [(at + delay, ClearProcessing)]\<rparr>)
      | (st, None) \<Rightarrow> rerender (ui w) (w\<lparr>clock := at, ui := st\<rparr>))"

text \<open>The pending timer that is due first; among timers due together, the oldest.\<close>

fun earliest :: "(nat \<times> timer) list \<Rightarrow> (nat \<times> timer) option" where
  "earliest [] = None"
| "earliest (x # xs) =
     (case earliest xs of
        None \<Rightarrow> Some x
      | Some y \<Rightarrow> if fst y < fst x then Some y else Some x)"

text \<open>The next timer fires: the clock moves to its time and its callback runs.\<close>

definition fire_next :: "world \<Rightarrow> world" where
  "fire_next w =
     (case earliest (timers w) of
        None \<Rightarrow> w
      | Some (due, ClearProcessing) \<Rightarrow>
          rerender (ui w)
            (w\<lparr>clock := due, timers := remove1 (due, ClearProcessing) (timers w),
               ui := processing_timeout (ui w)\<rparr>)
      | Some (due, Reveal k) \<Rightarrow>
          w\<lparr>clock := due, timers := remove1 (due, Reveal k) (timers w),
            views := (views w)(k := \<lparr>showResults = True, isExpanded = False\<rparr>)\<rparr>)"

section \<open>Notions used to state the properties\<close>

text \<open>
  A property read by \<open>field\<close> is kept by two updates in a row: set by the first
  update and not named by the second, it has the value the first update gave it; named
  by neither, it has the value it had before.
\<close>

definition keeps_field ::
  "(AgentResponse \<Rightarrow> 'a option) \<Rightarrow> AgentResponse \<Rightarrow> AgentResponse \<Rightarrow> AgentResponse \<Rightarrow> bool" where
  "keeps_field field a u1 u2 =
     ((\<forall>v. field u1 = Some v \<and> field u2 = None
           \<longrightarrow> field (merge_payload (merge_payload a u1) u2) = Some v)
      \<and> (field u1 = None \<and> field u2 = None
           \<longrightarrow> field (merge_payload (merge_payload a u1) u2) = field a))"

text \<open>
  The summary line of a turn as the specification words it: the text of a user turn;
  for an agent turn the final verdict, or \<^verbatim>\<open>Unknown\<close> if it is absent.
\<close>

definition summary_line :: "Message \<Rightarrow> string" where
  "summary_line m =
     (case msg_type m of
        User \<Rightarrow> ''User: '' @ content m @ [CHR 0x0A]
      | Agent \<Rightarrow>
          ''AI Verdict: '' @
          (case agentResponse m of
             Some a \<Rightarrow> (case final_verdict a of Some v \<Rightarrow> v | None \<Rightarrow> ''Unknown'')
           | None \<Rightarrow> ''Unknown'') @ [CHR 0x0A])"

text \<open>
  The summary line with the amendment that an empty verdict counts as an absent one.
\<close>

definition summary_line_amended :: "Message \<Rightarrow> string" where
  "summary_line_amended m =
     (case msg_type m of
        User \<Rightarrow> ''User: '' @ content m @ [CHR 0x0A]
      | Agent \<Rightarrow>
          ''AI Verdict: '' @
          (case agentResponse m of
             Some a \<Rightarrow> (case final_verdict a of
                         Some v \<Rightarrow> if v = [] then ''Unknown'' else v
                       | None \<Rightarrow> ''Unknown'')
           | None \<Rightarrow> ''Unknown'') @ [CHR 0x0A])"

text \<open>
  No call is in flight: \<^verbatim>\<open>isProcessing\<close> is clear, and every pending timer is the
  reveal timer of a view that is on the screen.
\<close>

definition idle :: "world \<Rightarrow> bool" where
  "idle w =
     (\<not> isProcessing (ui w)
      \<and> (\<forall>x\<in>set (timers w).
            case snd x of
              Reveal k \<Rightarrow> view_deps (ui w) k \<noteq> None
            | ClearProcessing \<Rightarrow> False))"

text \<open>
  Entry \<open>k\<close> of the log is shown by a view, and the final verdict of its payload is
  truthy: present and not the empty string.
\<close>

definition has_verdict :: "ui_state \<Rightarrow> nat \<Rightarrow> bool" where
  "has_verdict st k =
     (case view_deps st k of
        Some (processing, verdict) \<Rightarrow> (case verdict of Some v \<Rightarrow> v \<noteq> [] | None \<Rightarrow> False)
      | None \<Rightarrow> False)"

text \<open>
  The two fields of a candidate that the selector inspects have the types that
  \<^verbatim>\<open>interface ProductData\<close> declares, or are missing.
\<close>

definition declared_fields :: "jsval \<Rightarrow> bool" where
  "declared_fields item =
     ((js_get item ''NutritionFacts'' = JUndefined \<or> is_mapping (js_get item ''NutritionFacts''))
      \<and> (js_get item ''IngredientList'' = JUndefined \<or> isArray (js_get item ''IngredientList'')))"

section \<open>Properties of the helpers\<close>

subsection \<open>Step count and white space\<close>





lemma trim_blank:
  assumes "\<forall>c\<in>set s. is_js_space c"
  shows "trim s = []"
proof -
  from assms have d: "dropWhile is_js_space s = []"
    by (induction s) auto
  show ?thesis
    unfolding trim_def d by simp
qed

subsection \<open>Merging\<close>

lemma dec_100: "dec 100 = ''100''"
  by (simp add: dec.simps digit_char_def)

lemma dec_101: "dec 101 = ''101''"
  by (simp add: dec.simps digit_char_def)

lemma updateAgentMsg_length: "length (updateAgentMsg i u prev) = length prev"
  by (simp add: updateAgentMsg_def)

lemma updateAgentMsg_other:
  "k < length prev \<Longrightarrow> msg_id (prev ! k) \<noteq> i \<Longrightarrow> updateAgentMsg i u prev ! k = prev ! k"
  by (simp add: updateAgentMsg_def)

lemma updateAgentMsg_hit:
  "k < length prev \<Longrightarrow> msg_id (prev ! k) = i \<Longrightarrow>
   updateAgentMsg i u prev ! k =
     (prev ! k)\<lparr>agentResponse :=
                  Some (merge_payload
                          (case agentResponse (prev ! k) of Some a \<Rightarrow> a | None \<Rightarrow> empty_payload) u),
                isStreaming := Some False\<rparr>"
  by (simp add: updateAgentMsg_def)

lemma updateAgentMsg_unknown:
  "i \<notin> msg_id ` set prev \<Longrightarrow> updateAgentMsg i u prev = prev"
  unfolding updateAgentMsg_def by (induction prev) auto


lemma keeps_field_all:
  "keeps_field user_query a u1 u2"
  "keeps_field user_profile a u1 u2"
  "keeps_field image_data a u1 u2"
  "keeps_field product_json a u1 u2"
  "keeps_field plan a u1 u2"
  "keeps_field search_needed a u1 u2"
  "keeps_field search_queries a u1 u2"
  "keeps_field search_results a u1 u2"
  "keeps_field final_verdict a u1 u2"
  "keeps_field reasoning a u1 u2"
  "keeps_field next_suggestion a u1 u2"
  "keeps_field suggested_next_steps a u1 u2"
  "keeps_field conversation_summary a u1 u2"
  by (simp_all add: keeps_field_def merge_payload_def spread_def)

subsection \<open>Identifiers\<close>




subsection \<open>The log along a sequence of turns\<close>

lemma start_messages:
  "messages (fst (sendPromptToBackend_start now1 date1 now2 date2 prompt imageData file st))
     = messages st @ [user_turn now1 date1 prompt, pending_agent_turn now2 date2 prompt imageData]"
  by (simp add: sendPromptToBackend_start_def Let_def user_turn_def pending_agent_turn_def)

lemma start_agent_id:
  "fst (snd (sendPromptToBackend_start now1 date1 now2 date2 prompt imageData file st)) = dec (now2 + 1)"
  by (simp add: sendPromptToBackend_start_def Let_def)

lemma updates_length: "length (fold (updateAgentMsg i) us prev) = length prev"
  by (induction us arbitrary: prev) (simp_all add: updateAgentMsg_length)



lemma catch_block_messages:
  "messages (catch_block i message st) = updateAgentMsg i (fallback_payload message) (messages st)"
  by (simp add: catch_block_def)

lemma merge_answer_messages:
  "\<exists>us. messages (fst (merge_answer i data odd_plan st)) = fold (updateAgentMsg i) us (messages st)"
proof (cases odd_plan)
  case None
  have "messages (fst (merge_answer i data None st)) = fold (updateAgentMsg i) [data] (messages st)"
    by (simp add: merge_answer_def Let_def split: option.splits)
  with None show ?thesis by blast
next
  case (Some message)
  have "messages (fst (merge_answer i data (Some message) st))
          = fold (updateAgentMsg i) [data, fallback_payload message] (messages st)"
    by (simp add: merge_answer_def Let_def catch_block_messages split: option.splits)
  with Some show ?thesis by blast
qed

lemma settle_messages:
  "\<exists>us. messages (fst (sendPromptToBackend_settle stringify as_data i imageData r st))
          = fold (updateAgentMsg i) us (messages st)"
proof -
  have failed: "\<exists>us. messages (catch_block i message st) = fold (updateAgentMsg i) us (messages st)"
    for message
  proof -
    have "messages (catch_block i message st)
            = fold (updateAgentMsg i) [fallback_payload message] (messages st)"
      by (simp add: catch_block_messages)
    then show ?thesis by blast
  qed
  show ?thesis
    using failed merge_answer_messages
    by (auto simp add: sendPromptToBackend_settle_def
        split: sum.splits option.splits parsed_body.splits)
qed


lemma play_turn_messages:
  "\<exists>us. messages (play_turn stringify as_data st x)
         = fold (updateAgentMsg (dec (t_now2 x + 1))) us
             (messages st @ [user_turn (t_now1 x) (t_date1 x) (t_prompt x),
                             pending_agent_turn (t_now2 x) (t_date2 x) (t_prompt x) (t_image x)])"
proof -
  obtain st1 i req where
    s: "sendPromptToBackend_start (t_now1 x) (t_date1 x) (t_now2 x) (t_date2 x)
          (t_prompt x) (t_image x) (t_file x) st
          = (st1, i, req)"
    by (metis prod_cases3)
  have m1: "messages st1 = messages st @ [user_turn (t_now1 x) (t_date1 x) (t_prompt x),
                             pending_agent_turn (t_now2 x) (t_date2 x) (t_prompt x) (t_image x)]"
    using start_messages [of "t_now1 x" "t_date1 x" "t_now2 x" "t_date2 x" "t_prompt x" "t_image x" "t_file x" st] s
    by simp
  have i: "i = dec (t_now2 x + 1)"
    using start_agent_id [of "t_now1 x" "t_date1 x" "t_now2 x" "t_date2 x" "t_prompt x" "t_image x" "t_file x" st] s
    by simp
  obtain st2 d where
    t: "sendPromptToBackend_settle stringify as_data i (t_image x) (t_answer x) st1 = (st2, d)"
    by (cases "sendPromptToBackend_settle stringify as_data i (t_image x) (t_answer x) st1")
  obtain us where u: "messages st2 = fold (updateAgentMsg i) us (messages st1)"
    using settle_messages [of stringify as_data i "t_image x" "t_answer x" st1] t by auto
  have "messages (play_turn stringify as_data st x) = messages st2"
    by (simp add: play_turn_def s t processing_timeout_def split: option.splits)
  with u m1 i show ?thesis by auto
qed

lemma play_turns_snoc:
  "play_turns stringify as_data (xs @ [x])
     = play_turn stringify as_data (play_turns stringify as_data xs) x"
  by (simp add: play_turns_def)










lemma updateAgentMsg_payload_inv:
  "\<forall>m\<in>set prev. msg_type m = Agent \<longrightarrow> agentResponse m \<noteq> None \<Longrightarrow>
   \<forall>m\<in>set (updateAgentMsg i u prev). msg_type m = Agent \<longrightarrow> agentResponse m \<noteq> None"
  by (auto simp add: updateAgentMsg_def)

lemma updates_payload_inv:
  "\<forall>m\<in>set prev. msg_type m = Agent \<longrightarrow> agentResponse m \<noteq> None \<Longrightarrow>
   \<forall>m\<in>set (fold (updateAgentMsg i) us prev). msg_type m = Agent \<longrightarrow> agentResponse m \<noteq> None"
proof (induction us arbitrary: prev)
  case Nil
  then show ?case by simp
next
  case (Cons u us)
  from Cons.prems
  have "\<forall>m\<in>set (updateAgentMsg i u prev). msg_type m = Agent \<longrightarrow> agentResponse m \<noteq> None"
    by (rule updateAgentMsg_payload_inv)
  then show ?case
    using Cons.IH by simp
qed

lemma play_turns_payload_inv:
  "\<forall>m\<in>set (messages (play_turns stringify as_data xs)).
     msg_type m = Agent \<longrightarrow> agentResponse m \<noteq> None"
proof (induction xs rule: rev_induct)
  case Nil
  show ?case by (simp add: play_turns_def initial_state_def)
next
  case (snoc x xs)
  let ?log = "messages (play_turns stringify as_data xs)"
  let ?new = "[user_turn (t_now1 x) (t_date1 x) (t_prompt x),
               pending_agent_turn (t_now2 x) (t_date2 x) (t_prompt x) (t_image x)]"
  obtain us where
    log': "messages (play_turns stringify as_data (xs @ [x]))
             = fold (updateAgentMsg (dec (t_now2 x + 1))) us (?log @ ?new)"
    using play_turn_messages [of stringify as_data "play_turns stringify as_data xs" x]
    by (auto simp add: play_turns_snoc)
  have "\<forall>m\<in>set (?log @ ?new). msg_type m = Agent \<longrightarrow> agentResponse m \<noteq> None"
    using snoc.IH by (auto simp add: user_turn_def pending_agent_turn_def)
  then show ?case
    unfolding log' by (rule updates_payload_inv)
qed

subsection \<open>The digest\<close>

lemma foldl_append_lines:
  "foldl (\<lambda>acc m. acc @ f m) init xs = init @ concat (map f xs)"
  by (induction xs arbitrary: init) simp_all

lemma context_line_is_summary:
  "(msg_type m = Agent \<longrightarrow> agentResponse m \<noteq> None) \<Longrightarrow>
   context_line m = summary_line_amended m"
  by (cases "msg_type m")
    (auto simp add: context_line_def summary_line_amended_def split: option.splits)

lemma summary_line_amended_same:
  "(\<forall>a. agentResponse m = Some a \<longrightarrow> final_verdict a \<noteq> Some []) \<Longrightarrow>
   summary_line_amended m = summary_line m"
  by (cases "msg_type m")
    (auto simp add: summary_line_def summary_line_amended_def split: option.splits)

lemma start_query:
  "req_user_query (state_json (snd (snd (sendPromptToBackend_start now1 date1 now2 date2 prompt imageData file st))))
     = buildContext (messages st) @ prompt"
  by (simp add: sendPromptToBackend_start_def Let_def)

subsection \<open>Failure of the dispatch\<close>








subsection \<open>Timers and views\<close>

lemma view_deps_processing:
  "view_deps st k = Some (p, v) \<Longrightarrow> p = isProcessing st"
  by (auto simp add: view_deps_def split: if_splits option.splits)


lemma has_verdict_deps:
  "has_verdict st k \<Longrightarrow> view_deps st k \<noteq> None"
  by (auto simp add: has_verdict_def split: option.splits)



lemma effect_of_view_cleared:
  "\<not> isProcessing new \<Longrightarrow> isProcessing old \<Longrightarrow> \<forall>x\<in>set ts. snd x \<noteq> Reveal k \<Longrightarrow>
   effect_of_view old new now ts k
     = (if has_verdict new k then ts @ [(now + 1500, Reveal k)] else ts)"
proof -
  assume p: "\<not> isProcessing new" and q: "isProcessing old"
    and ts: "\<forall>x\<in>set ts. snd x \<noteq> Reveal k"
  have cleared: "filter (\<lambda>(due, t). t \<noteq> Reveal k) ts = ts"
    using ts by (auto simp add: filter_id_conv)
  show ?thesis
  proof (cases "view_deps new k")
    case None
    then show ?thesis
      by (simp add: effect_of_view_def Let_def cleared has_verdict_def)
  next
    case (Some d)
    obtain a v where d: "d = (a, v)"
      by (cases d)
    have a: "a = isProcessing new"
      using Some d by (intro view_deps_processing [of new k a v]) simp
    have differ: "view_deps new k \<noteq> view_deps old k"
    proof
      assume "view_deps new k = view_deps old k"
      then have "view_deps old k = Some (a, v)"
        using Some d by simp
      then have "a = isProcessing old"
        by (rule view_deps_processing)
      with a p q show False by simp
    qed
    show ?thesis
      using differ Some d a p
      by (simp add: effect_of_view_def Let_def cleared has_verdict_def)
  qed
qed

lemma effects_cleared:
  "\<not> isProcessing new \<Longrightarrow> isProcessing old \<Longrightarrow> distinct ks \<Longrightarrow>
   \<forall>x\<in>set ts. \<forall>k\<in>set ks. snd x \<noteq> Reveal k \<Longrightarrow>
   foldl (effect_of_view old new now) ts ks
     = ts @ map (\<lambda>k. (now + 1500, Reveal k)) (filter (has_verdict new) ks)"
proof (induction ks arbitrary: ts)
  case Nil
  show ?case by simp
next
  case (Cons k ks)
  have step: "effect_of_view old new now ts k
                = (if has_verdict new k then ts @ [(now + 1500, Reveal k)] else ts)"
    using Cons.prems by (intro effect_of_view_cleared) simp_all
  have rest: "\<forall>x\<in>set (effect_of_view old new now ts k). \<forall>j\<in>set ks. snd x \<noteq> Reveal j"
    using Cons.prems by (auto simp add: step)
  have "foldl (effect_of_view old new now) (effect_of_view old new now ts k) ks
          = effect_of_view old new now ts k
            @ map (\<lambda>k. (now + 1500, Reveal k)) (filter (has_verdict new) ks)"
    using Cons.prems rest by (intro Cons.IH) simp_all
  then show ?case
    by (simp add: step)
qed






lemma idle_timer:
  "idle w \<Longrightarrow> x \<in> set (timers w) \<Longrightarrow> \<exists>k. snd x = Reveal k \<and> view_deps (ui w) k \<noteq> None"
  by (cases "snd x") (auto simp add: idle_def)

















lemma idle_reveal_timers:
  "\<not> isProcessing (ui w) \<Longrightarrow>
   timers w = map (\<lambda>k. (d, Reveal k)) (filter (has_verdict (ui w)) ks) \<Longrightarrow> idle w"
  using has_verdict_deps [of "ui w"] by (auto simp add: idle_def)


lemma idle_after_failure:
  assumes settle: "sendPromptToBackend_settle stringify as_data i imageData r (ui w) = (st, None)"
    and p: "isProcessing (ui w)"
    and none: "timers w = []"
  shows "idle (world_settle stringify as_data i imageData at r w)"
proof -
  have q: "\<not> isProcessing st"
    using settle
    by (auto simp add: sendPromptToBackend_settle_def merge_answer_def Let_def catch_block_def
        split: sum.splits option.splits parsed_body.splits if_splits)
  have ui: "ui (world_settle stringify as_data i imageData at r w) = st"
    by (simp add: world_settle_def settle rerender_def)
  have "timers (world_settle stringify as_data i imageData at r w)
          = foldl (effect_of_view (ui w) st at) [] [0..<length (messages st)]"
    by (simp add: world_settle_def settle rerender_def none)
  also have "\<dots> = [] @ map (\<lambda>k. (at + 1500, Reveal k))
                        (filter (has_verdict st) [0..<length (messages st)])"
    using q p by (rule effects_cleared) simp_all
  finally have "timers (world_settle stringify as_data i imageData at r w)
                  = map (\<lambda>k. (at + 1500, Reveal k))
                      (filter (has_verdict (ui (world_settle stringify as_data i imageData at r w)))
                         [0..<length (messages st)])"
    by (simp add: ui)
  with q show ?thesis
    by (intro idle_reveal_timers) (simp_all add: ui)
qed

lemma earliest_member: "earliest xs = Some y \<Longrightarrow> y \<in> set xs"
proof (induction xs arbitrary: y)
  case Nil
  then show ?case by simp
next
  case (Cons x xs)
  then show ?case
    by (auto split: option.splits if_splits)
qed

lemma idle_after_reveal: "idle w \<Longrightarrow> idle (fire_next w)"
proof (cases "earliest (timers w)")
  case None
  assume "idle w"
  with None show ?thesis
    by (simp add: fire_next_def)
next
  case (Some y)
  assume idle: "idle w"
  have y: "y \<in> set (timers w)"
    using Some by (rule earliest_member)
  obtain k where k: "snd y = Reveal k"
    using idle_timer [OF idle y] by blast
  obtain due where due: "y = (due, Reveal k)"
    using k by (cases y) simp
  have fired: "fire_next w
                 = w\<lparr>clock := due, timers := remove1 (due, Reveal k) (timers w),
                      views := (views w)(k := \<lparr>showResults = True, isExpanded = False\<rparr>)\<rparr>"
    by (simp add: fire_next_def Some due)
  have same: "ui (fire_next w) = ui w"
    by (simp add: fired)
  have rest: "x \<in> set (timers w)" if "x \<in> set (remove1 (due, Reveal k) (timers w))" for x
    using that set_remove1_subset [of "(due, Reveal k)" "timers w"] by blast
  show ?thesis
    unfolding idle_def
  proof (intro conjI ballI)
    show "\<not> isProcessing (ui (fire_next w))"
      using idle by (simp add: fired idle_def)
  next
    fix x
    assume "x \<in> set (timers (fire_next w))"
    then have "x \<in> set (timers w)"
      by (intro rest) (simp add: fired)
    then have "case snd x of Reveal j \<Rightarrow> view_deps (ui w) j \<noteq> None | ClearProcessing \<Rightarrow> False"
      using idle by (simp add: idle_def)
    then show "case snd x of Reveal j \<Rightarrow> view_deps (ui (fire_next w)) j \<noteq> None
               | ClearProcessing \<Rightarrow> False"
      unfolding same .
  qed
qed


subsection \<open>Candidates with fields of the declared types\<close>

lemma typeof_object_mapping:
  "v = JUndefined \<or> is_mapping v \<Longrightarrow> (typeof v = ''object'') = is_mapping v"
  by (cases v) auto

lemma typeof_object_array:
  "v = JUndefined \<or> isArray v \<Longrightarrow> (typeof v = ''object'') = isArray v"
  by (cases v) auto

lemma qualifies_declared:
  "declared_fields item \<Longrightarrow> qualifies item = exposes_subject_data item"
  by (cases item)
    (auto simp add: qualifies_def exposes_subject_data_def declared_fields_def
      typeof_object_mapping typeof_object_array)

lemma find_declared:
  "\<forall>x\<in>set xs. declared_fields x \<Longrightarrow> find qualifies xs = find exposes_subject_data xs"
  by (induction xs) (simp_all add: qualifies_declared)

lemma find_exposes_truthy:
  "find exposes_subject_data xs = Some x \<Longrightarrow> truthy x"
  by (induction xs) (auto simp add: exposes_subject_data_def split: if_splits elim: is_mapping.elims)

section \<open>The reveal delay\<close>



section \<open>The follow-up suggestions\<close>

text \<open>
  C8, as amended. The list of follow-up suggestions is
  \<^verbatim>\<open>suggested_next_steps\<close> when that field is present and not empty; otherwise it
  is \<^verbatim>\<open>next_suggestion\<close> when that field is present; otherwise it is empty.
\<close>

theorem suggestions_resolution:
  "(\<forall>s. suggested_next_steps data = Some s \<and> s \<noteq> [] \<longrightarrow> suggestions data = s)
   \<and> (\<forall>n. (suggested_next_steps data = None \<or> suggested_next_steps data = Some [])
          \<and> next_suggestion data = Some n \<longrightarrow> suggestions data = n)
   \<and> ((suggested_next_steps data = None \<or> suggested_next_steps data = Some [])
          \<and> next_suggestion data = None \<longrightarrow> suggestions data = [])"
  by (auto simp add: suggestions_def)

theorem suggestions_resolution_witness:
  "suggestions (empty_payload\<lparr>suggested_next_steps := Some [''Compare brands''],
                               next_suggestion := Some [''Is it vegan?'']\<rparr>)
     = [''Compare brands'']
   \<and> suggestions (empty_payload\<lparr>suggested_next_steps := None,
                                 next_suggestion := Some [''Is it vegan?'']\<rparr>)
     = [''Is it vegan?'']
   \<and> suggestions (empty_payload\<lparr>suggested_next_steps := Some [],
                                 next_suggestion := None\<rparr>) = []"
  using
    suggestions_resolution
      [of "empty_payload\<lparr>suggested_next_steps := Some [''Compare brands''],
                          next_suggestion := Some [''Is it vegan?'']\<rparr>"]
    suggestions_resolution
      [of "empty_payload\<lparr>suggested_next_steps := None,
                          next_suggestion := Some [''Is it vegan?'']\<rparr>"]
    suggestions_resolution
      [of "empty_payload\<lparr>suggested_next_steps := Some [], next_suggestion := None\<rparr>"]
  by simp

text \<open>
  Both fields are present, the newer one is the empty list, and the older one is what
  the component shows.
\<close>

theorem newer_suggestions_counterexample:
  "suggested_next_steps
     (empty_payload\<lparr>suggested_next_steps := Some [],
                    next_suggestion := Some [''Is it vegan?'']\<rparr>) = Some []
   \<and> next_suggestion
     (empty_payload\<lparr>suggested_next_steps := Some [],
                    next_suggestion := Some [''Is it vegan?'']\<rparr>) = Some [''Is it vegan?'']
   \<and> suggestions
     (empty_payload\<lparr>suggested_next_steps := Some [],
                    next_suggestion := Some [''Is it vegan?'']\<rparr>) = [''Is it vegan?'']
   \<and> suggestions
     (empty_payload\<lparr>suggested_next_steps := Some [],
                    next_suggestion := Some [''Is it vegan?'']\<rparr>) \<noteq> []"
  by (simp add: suggestions_def)

section \<open>Blank submissions\<close>

text \<open>
  C9. When the text of the input field is empty or holds white space only,
  \<^verbatim>\<open>handleSubmit\<close> leaves the state as it is, in every state: no turn is appended,
  \<^verbatim>\<open>isProcessing\<close> is not set, and no request is sent.
\<close>

theorem blank_submission_is_noop:
  "\<forall>c\<in>set (inputValue st). is_js_space c \<Longrightarrow> handleSubmit now1 date1 now2 date2 st = (st, None)"
  by (simp add: handleSubmit_def trim_blank)

theorem blank_submission_is_noop_witness:
  "handleSubmit 100 102 100 102 (initial_state\<lparr>inputValue := '' '' @ [CHR 0x09]\<rparr>)
     = (initial_state\<lparr>inputValue := '' '' @ [CHR 0x09]\<rparr>, None)
   \<and> handleSubmit 100 102 100 102 (initial_state\<lparr>inputValue := [], isProcessing := True\<rparr>)
     = (initial_state\<lparr>inputValue := [], isProcessing := True\<rparr>, None)"
proof -
  have h: "\<forall>c\<in>set (inputValue (initial_state\<lparr>inputValue := '' '' @ [CHR 0x09]\<rparr>)).
             is_js_space c"
    by (simp add: is_js_space_def)
  have e: "\<forall>c\<in>set (inputValue (initial_state\<lparr>inputValue := [], isProcessing := True\<rparr>)).
             is_js_space c"
    by simp
  show ?thesis
    using blank_submission_is_noop [OF h, of 100 102 100 102] blank_submission_is_noop [OF e, of 100 102 100 102]
    by simp
qed

section \<open>The subject selector\<close>

text \<open>
  C7, at an input where the component departs from it. The first candidate has
  \<^verbatim>\<open>NutritionFacts: null\<close> and no ingredient list, the second has a nutrition
  mapping. \<^verbatim>\<open>getValidProduct\<close> returns the first; the first element that exposes a
  nutrition-facts mapping or an ingredient list is the second.
\<close>

theorem subject_selector_null_facts:
  "getValidProduct
     (JArr [JObj [(''NutritionFacts'', JNull)],
            JObj [(''NutritionFacts'', JObj [(''calories'', JStr ''120'')])]])
   = JObj [(''NutritionFacts'', JNull)]
   \<and> subject_selector_spec
     (JArr [JObj [(''NutritionFacts'', JNull)],
            JObj [(''NutritionFacts'', JObj [(''calories'', JStr ''120'')])]])
   = Some (JObj [(''NutritionFacts'', JObj [(''calories'', JStr ''120'')])])"
  by (simp add: getValidProduct_def subject_selector_spec_def js_or_def js_find_def
      qualifies_def exposes_subject_data_def)

text \<open>
  On the other inputs the selector is the one of the specification: a missing subject
  and \<^verbatim>\<open>null\<close> give no subject, a single object is returned as it is, and in an array
  whose candidates have fields of the declared types the first one that exposes a
  nutrition-facts mapping or an ingredient list is selected.
\<close>

lemma getValidProduct_on_declared_fields:
  "getValidProduct JUndefined = JNull"
  "getValidProduct JNull = JNull"
  "getValidProduct (JObj kvs) = JObj kvs"
  "\<forall>x\<in>set xs. declared_fields x \<Longrightarrow>
   getValidProduct (JArr xs)
     = (case subject_selector_spec (JArr xs) of Some x \<Rightarrow> x | None \<Rightarrow> JNull)"
proof -
  show "getValidProduct JUndefined = JNull" "getValidProduct JNull = JNull"
    "getValidProduct (JObj kvs) = JObj kvs"
    by (simp_all add: getValidProduct_def)
  assume d: "\<forall>x\<in>set xs. declared_fields x"
  show "getValidProduct (JArr xs)
     = (case subject_selector_spec (JArr xs) of Some x \<Rightarrow> x | None \<Rightarrow> JNull)"
    using find_exposes_truthy [of xs]
    by (auto simp add: getValidProduct_def subject_selector_spec_def js_find_def js_or_def
        find_declared [OF d] split: option.splits)
qed

text \<open>
  C10. \<^verbatim>\<open>typeof null\<close> is \<^verbatim>\<open>'object'\<close>. An element that is an object qualifies
  exactly when its \<^verbatim>\<open>NutritionFacts\<close> or its \<^verbatim>\<open>IngredientList\<close> has the type
  \<^verbatim>\<open>'object'\<close>, so an element with \<^verbatim>\<open>NutritionFacts: null\<close> and no ingredient
  list qualifies; standing first in the array it is the one selected, whatever
  follows it.
\<close>

theorem null_field_qualifies:
  "typeof JNull = ''object''
   \<and> qualifies (JObj kvs) =
       (typeof (js_get (JObj kvs) ''NutritionFacts'') = ''object''
        \<or> typeof (js_get (JObj kvs) ''IngredientList'') = ''object'')
   \<and> qualifies (JObj [(''NutritionFacts'', JNull)])
   \<and> getValidProduct (JArr (JObj [(''NutritionFacts'', JNull)] # rest))
       = JObj [(''NutritionFacts'', JNull)]"
  by (simp add: getValidProduct_def js_or_def js_find_def qualifies_def)

section \<open>Merging into an agent turn\<close>

text \<open>
  C6. \<^verbatim>\<open>updateAgentMsg\<close> keeps the length of the log; in every turn with the given
  identifier it clears the pending flag and merges the update into the payload field
  by field; it leaves every other turn as it is, so that for an identifier no turn has
  the log is unchanged (the function has no failing branch). Across two updates in a
  row every field set by the first and not named by the second keeps its value, and a
  field named by neither keeps the value it had; merging a verdict and then a
  reasoning leaves both set.
\<close>

theorem updateAgentMsg_merges_field_wise:
  "length (updateAgentMsg i u prev) = length prev
   \<and> (\<forall>k<length prev. msg_id (prev ! k) = i \<longrightarrow>
         isStreaming (updateAgentMsg i u prev ! k) = Some False
         \<and> agentResponse (updateAgentMsg i u prev ! k) =
             Some (merge_payload
                     (case agentResponse (prev ! k) of Some a \<Rightarrow> a | None \<Rightarrow> empty_payload) u))
   \<and> (\<forall>k<length prev. msg_id (prev ! k) \<noteq> i \<longrightarrow> updateAgentMsg i u prev ! k = prev ! k)
   \<and> (i \<notin> msg_id ` set prev \<longrightarrow> updateAgentMsg i u prev = prev)
   \<and> keeps_field user_query a u1 u2
   \<and> keeps_field user_profile a u1 u2
   \<and> keeps_field image_data a u1 u2
   \<and> keeps_field product_json a u1 u2
   \<and> keeps_field plan a u1 u2
   \<and> keeps_field search_needed a u1 u2
   \<and> keeps_field search_queries a u1 u2
   \<and> keeps_field search_results a u1 u2
   \<and> keeps_field final_verdict a u1 u2
   \<and> keeps_field reasoning a u1 u2
   \<and> keeps_field next_suggestion a u1 u2
   \<and> keeps_field suggested_next_steps a u1 u2
   \<and> keeps_field conversation_summary a u1 u2
   \<and> final_verdict
         (merge_payload (merge_payload a (empty_payload\<lparr>final_verdict := Some ''SAFE''\<rparr>))
            (empty_payload\<lparr>reasoning := Some r\<rparr>)) = Some ''SAFE''
   \<and> reasoning
         (merge_payload (merge_payload a (empty_payload\<lparr>final_verdict := Some ''SAFE''\<rparr>))
            (empty_payload\<lparr>reasoning := Some r\<rparr>)) = Some r"
proof -
  have both:
    "final_verdict
       (merge_payload (merge_payload a (empty_payload\<lparr>final_verdict := Some ''SAFE''\<rparr>))
          (empty_payload\<lparr>reasoning := Some r\<rparr>)) = Some ''SAFE''"
    "reasoning
       (merge_payload (merge_payload a (empty_payload\<lparr>final_verdict := Some ''SAFE''\<rparr>))
          (empty_payload\<lparr>reasoning := Some r\<rparr>)) = Some r"
    by (simp_all add: merge_payload_def spread_def empty_payload_def)
  show ?thesis
    using updateAgentMsg_length [of i u prev] updateAgentMsg_unknown [of i prev u]
      keeps_field_all [of a u1 u2] both
    by (simp add: updateAgentMsg_other updateAgentMsg_hit)
qed

theorem updateAgentMsg_witness:
  "isStreaming
     (updateAgentMsg ''101'' (empty_payload\<lparr>final_verdict := Some ''SAFE''\<rparr>)
        [user_turn 100 102 ''Is X safe?'', pending_agent_turn 100 102 ''Is X safe?'' None] ! 1) = Some False
   \<and> updateAgentMsg ''999'' (empty_payload\<lparr>final_verdict := Some ''SAFE''\<rparr>)
        [user_turn 100 102 ''Is X safe?'', pending_agent_turn 100 102 ''Is X safe?'' None]
      = [user_turn 100 102 ''Is X safe?'', pending_agent_turn 100 102 ''Is X safe?'' None]
   \<and> updateAgentMsg ''101'' (empty_payload\<lparr>final_verdict := Some ''SAFE''\<rparr>)
        [user_turn 100 102 ''Is X safe?'', pending_agent_turn 100 102 ''Is X safe?'' None] ! 0
      = user_turn 100 102 ''Is X safe?''
   \<and> final_verdict
       (merge_payload
          (merge_payload empty_payload (empty_payload\<lparr>final_verdict := Some ''SAFE''\<rparr>))
          (empty_payload\<lparr>reasoning := Some ''No allergens found''\<rparr>)) = Some ''SAFE''
   \<and> reasoning
       (merge_payload
          (merge_payload empty_payload (empty_payload\<lparr>reasoning := Some ''No allergens found''\<rparr>))
          (empty_payload\<lparr>final_verdict := Some ''SAFE''\<rparr>)) = Some ''No allergens found''"
proof -
  let ?log = "[user_turn 100 102 ''Is X safe?'', pending_agent_turn 100 102 ''Is X safe?'' None]"
  let ?safe = "empty_payload\<lparr>final_verdict := Some ''SAFE''\<rparr>"
  let ?why = "empty_payload\<lparr>reasoning := Some ''No allergens found''\<rparr>"
  have ids: "msg_id (?log ! 1) = ''101''" "msg_id (?log ! 0) = ''100''"
    by (simp_all add: user_turn_def pending_agent_turn_def dec_101 dec_100)
  have unknown: "''999'' \<notin> msg_id ` set ?log"
    by (simp add: user_turn_def pending_agent_turn_def dec_101 dec_100)
  note t1 =
    updateAgentMsg_merges_field_wise [of "''101''" ?safe ?log empty_payload ?safe ?why]
  note t2 =
    updateAgentMsg_merges_field_wise [of "''999''" ?safe ?log empty_payload ?why ?safe]
  have a: "isStreaming (updateAgentMsg ''101'' ?safe ?log ! 1) = Some False"
    using t1 ids by simp
  have b: "updateAgentMsg ''999'' ?safe ?log = ?log"
    using t2 unknown by simp
  have c: "updateAgentMsg ''101'' ?safe ?log ! 0 = user_turn 100 102 ''Is X safe?''"
    using t1 ids by simp
  have d: "final_verdict (merge_payload (merge_payload empty_payload ?safe) ?why) = Some ''SAFE''"
    using t1 by (simp add: keeps_field_def empty_payload_def)
  have e: "reasoning (merge_payload (merge_payload empty_payload ?why) ?safe)
             = Some ''No allergens found''"
    using t2 by (simp add: keeps_field_def empty_payload_def)
  show ?thesis
    using a b c d e by simp
qed

section \<open>The conversation log\<close>




section \<open>The memory digest\<close>

text \<open>
  C5, as amended. On the empty log \<^verbatim>\<open>buildContext\<close> is the empty string. On a log that
  is not empty and in which every agent turn carries a payload, it is the header line,
  then one summary line for each of the last min(6, length) turns (the text of a user
  turn; the final verdict of an agent turn, \<^verbatim>\<open>Unknown\<close> when the verdict is missing
  or the empty string), then the marker. When moreover no verdict is the empty string,
  the summary lines are those of the specification, which prints a verdict that is
  present as it is. Every log that a sequence of turns produces is a log in which every
  agent turn carries a payload. The query sent is the digest followed by the prompt.
\<close>

theorem buildContext_digest:
  "buildContext [] = []
   \<and> (msgs \<noteq> [] \<and> (\<forall>m\<in>set msgs. msg_type m = Agent \<longrightarrow> agentResponse m \<noteq> None) \<longrightarrow>
        buildContext msgs =
          ''PREVIOUS CONVERSATION CONTEXT:'' @ [CHR 0x0A]
          @ concat (map summary_line_amended (drop (length msgs - 6) msgs))
          @ [CHR 0x0A] @ ''CURRENT QUESTION:'' @ [CHR 0x0A]
        \<and> length (drop (length msgs - 6) msgs) = min 6 (length msgs))
   \<and> (msgs \<noteq> [] \<and> (\<forall>m\<in>set msgs. msg_type m = Agent \<longrightarrow> agentResponse m \<noteq> None)
        \<and> (\<forall>m\<in>set msgs. \<forall>a. agentResponse m = Some a \<longrightarrow> final_verdict a \<noteq> Some []) \<longrightarrow>
        buildContext msgs =
          ''PREVIOUS CONVERSATION CONTEXT:'' @ [CHR 0x0A]
          @ concat (map summary_line (drop (length msgs - 6) msgs))
          @ [CHR 0x0A] @ ''CURRENT QUESTION:'' @ [CHR 0x0A])
   \<and> (\<forall>m\<in>set (messages (play_turns stringify as_data xs)).
         msg_type m = Agent \<longrightarrow> agentResponse m \<noteq> None)
   \<and> req_user_query
        (state_json
           (snd (snd (sendPromptToBackend_start now1 date1 now2 date2 prompt imageData file st))))
      = buildContext (messages st) @ prompt"
proof -
  have empty: "buildContext [] = []"
    by (simp add: buildContext_def)
  have digest:
    "buildContext msgs =
       ''PREVIOUS CONVERSATION CONTEXT:'' @ [CHR 0x0A]
       @ concat (map summary_line_amended (drop (length msgs - 6) msgs))
       @ [CHR 0x0A] @ ''CURRENT QUESTION:'' @ [CHR 0x0A]"
    if ne: "msgs \<noteq> []"
      and inv: "\<forall>m\<in>set msgs. msg_type m = Agent \<longrightarrow> agentResponse m \<noteq> None"
  proof -
    have "\<forall>m\<in>set (drop (length msgs - 6) msgs). context_line m = summary_line_amended m"
      using inv context_line_is_summary by (meson in_set_dropD)
    then have same: "map context_line (drop (length msgs - 6) msgs)
                 = map summary_line_amended (drop (length msgs - 6) msgs)"
      by simp
    have "buildContext msgs =
            (''PREVIOUS CONVERSATION CONTEXT:'' @ [CHR 0x0A])
            @ concat (map context_line (drop (length msgs - 6) msgs))
            @ ([CHR 0x0A] @ ''CURRENT QUESTION:'' @ [CHR 0x0A])"
      using ne by (simp add: buildContext_def foldl_append_lines)
    then show ?thesis
      unfolding same by simp
  qed
  have literal:
    "map summary_line_amended (drop (length msgs - 6) msgs)
       = map summary_line (drop (length msgs - 6) msgs)"
    if "\<forall>m\<in>set msgs. \<forall>a. agentResponse m = Some a \<longrightarrow> final_verdict a \<noteq> Some []"
  proof -
    have "\<forall>m\<in>set (drop (length msgs - 6) msgs). summary_line_amended m = summary_line m"
      using that summary_line_amended_same by (meson in_set_dropD)
    then show ?thesis by simp
  qed
  have len: "length (drop (length msgs - 6) msgs) = min 6 (length msgs)"
    by simp
  have query:
    "req_user_query
        (state_json
           (snd (snd (sendPromptToBackend_start now1 date1 now2 date2 prompt imageData file st))))
      = buildContext (messages st) @ prompt"
    by (rule start_query)
  show ?thesis
    using empty digest literal len query play_turns_payload_inv [of stringify as_data xs]
    by metis
qed

theorem buildContext_digest_witness:
  "buildContext
     [user_turn 100 102 ''Is A safe?'',
      (pending_agent_turn 100 102 ''Is A safe?'' None)
        \<lparr>agentResponse := Some (empty_payload\<lparr>final_verdict := Some ''SAFE''\<rparr>)\<rparr>,
      user_turn 200 202 ''Is B safe?'',
      (pending_agent_turn 200 202 ''Is B safe?'' None)
        \<lparr>agentResponse := Some (empty_payload\<lparr>final_verdict := Some ''AVOID''\<rparr>)\<rparr>,
      user_turn 300 302 ''Is C safe?'',
      (pending_agent_turn 300 302 ''Is C safe?'' None)
        \<lparr>agentResponse := Some (empty_payload\<lparr>final_verdict := Some []\<rparr>)\<rparr>,
      user_turn 400 402 ''Is D safe?'',
      pending_agent_turn 400 402 ''Is D safe?'' None]
   = ''PREVIOUS CONVERSATION CONTEXT:'' @ [CHR 0x0A]
     @ ''User: Is B safe?'' @ [CHR 0x0A]
     @ ''AI Verdict: AVOID'' @ [CHR 0x0A]
     @ ''User: Is C safe?'' @ [CHR 0x0A]
     @ ''AI Verdict: Unknown'' @ [CHR 0x0A]
     @ ''User: Is D safe?'' @ [CHR 0x0A]
     @ ''AI Verdict: Unknown'' @ [CHR 0x0A]
     @ [CHR 0x0A] @ ''CURRENT QUESTION:'' @ [CHR 0x0A]"
proof -
  let ?log =
    "[user_turn 100 102 ''Is A safe?'',
      (pending_agent_turn 100 102 ''Is A safe?'' None)
        \<lparr>agentResponse := Some (empty_payload\<lparr>final_verdict := Some ''SAFE''\<rparr>)\<rparr>,
      user_turn 200 202 ''Is B safe?'',
      (pending_agent_turn 200 202 ''Is B safe?'' None)
        \<lparr>agentResponse := Some (empty_payload\<lparr>final_verdict := Some ''AVOID''\<rparr>)\<rparr>,
      user_turn 300 302 ''Is C safe?'',
      (pending_agent_turn 300 302 ''Is C safe?'' None)
        \<lparr>agentResponse := Some (empty_payload\<lparr>final_verdict := Some []\<rparr>)\<rparr>,
      user_turn 400 402 ''Is D safe?'',
      pending_agent_turn 400 402 ''Is D safe?'' None]"
  have inv: "\<forall>m\<in>set ?log. msg_type m = Agent \<longrightarrow> agentResponse m \<noteq> None"
    by (simp add: user_turn_def pending_agent_turn_def)
  have ne: "?log \<noteq> []"
    by simp
  note t = buildContext_digest [of ?log, THEN conjunct2, THEN conjunct1, rule_format]
  have "buildContext ?log =
          ''PREVIOUS CONVERSATION CONTEXT:'' @ [CHR 0x0A]
          @ concat (map summary_line_amended (drop (length ?log - 6) ?log))
          @ [CHR 0x0A] @ ''CURRENT QUESTION:'' @ [CHR 0x0A]"
    using t [OF conjI [OF ne inv]] by blast
  then show ?thesis
    by (simp add: summary_line_amended_def user_turn_def pending_agent_turn_def empty_payload_def)
qed

text \<open>
  One turn whose answer has the empty string as final verdict: the digest of the log
  says \<^verbatim>\<open>AI Verdict: Unknown\<close>, while the summary line of the specification is
  \<^verbatim>\<open>AI Verdict: \<close> followed by the verdict that is present, the empty string.
\<close>

theorem empty_verdict_counterexample:
  "messages
     (play_turns fst snd
        [\<lparr>t_now1 = 100, t_date1 = 102, t_now2 = 100, t_date2 = 102,
          t_prompt = ''Is X safe?'', t_image = None, t_file = None,
          t_answer = Responded 200
                       (Inr (''{}'', ObjectBody (empty_payload\<lparr>final_verdict := Some []\<rparr>)
                                       None))\<rparr>])
     = [user_turn 100 102 ''Is X safe?'',
        (pending_agent_turn 100 102 ''Is X safe?'' None)
          \<lparr>agentResponse :=
             Some (empty_payload\<lparr>user_query := Some ''Is X safe?'', image_data := Some None,
                                 final_verdict := Some []\<rparr>),
           isStreaming := Some False\<rparr>]
   \<and> buildContext
       [user_turn 100 102 ''Is X safe?'',
        (pending_agent_turn 100 102 ''Is X safe?'' None)
          \<lparr>agentResponse :=
             Some (empty_payload\<lparr>user_query := Some ''Is X safe?'', image_data := Some None,
                                 final_verdict := Some []\<rparr>),
           isStreaming := Some False\<rparr>]
     = ''PREVIOUS CONVERSATION CONTEXT:'' @ [CHR 0x0A]
       @ ''User: Is X safe?'' @ [CHR 0x0A]
       @ ''AI Verdict: Unknown'' @ [CHR 0x0A]
       @ [CHR 0x0A] @ ''CURRENT QUESTION:'' @ [CHR 0x0A]
   \<and> ''PREVIOUS CONVERSATION CONTEXT:'' @ [CHR 0x0A]
       @ concat (map summary_line
           [user_turn 100 102 ''Is X safe?'',
            (pending_agent_turn 100 102 ''Is X safe?'' None)
              \<lparr>agentResponse :=
                 Some (empty_payload\<lparr>user_query := Some ''Is X safe?'', image_data := Some None,
                                     final_verdict := Some []\<rparr>),
               isStreaming := Some False\<rparr>])
       @ [CHR 0x0A] @ ''CURRENT QUESTION:'' @ [CHR 0x0A]
     = ''PREVIOUS CONVERSATION CONTEXT:'' @ [CHR 0x0A]
       @ ''User: Is X safe?'' @ [CHR 0x0A]
       @ ''AI Verdict: '' @ [CHR 0x0A]
       @ [CHR 0x0A] @ ''CURRENT QUESTION:'' @ [CHR 0x0A]
   \<and> buildContext
       [user_turn 100 102 ''Is X safe?'',
        (pending_agent_turn 100 102 ''Is X safe?'' None)
          \<lparr>agentResponse :=
             Some (empty_payload\<lparr>user_query := Some ''Is X safe?'', image_data := Some None,
                                 final_verdict := Some []\<rparr>),
           isStreaming := Some False\<rparr>]
     \<noteq> ''PREVIOUS CONVERSATION CONTEXT:'' @ [CHR 0x0A]
       @ concat (map summary_line
       [user_turn 100 102 ''Is X safe?'',
        (pending_agent_turn 100 102 ''Is X safe?'' None)
          \<lparr>agentResponse :=
             Some (empty_payload\<lparr>user_query := Some ''Is X safe?'', image_data := Some None,
                                 final_verdict := Some []\<rparr>),
           isStreaming := Some False\<rparr>])
       @ [CHR 0x0A] @ ''CURRENT QUESTION:'' @ [CHR 0x0A]"
proof -
  have log:
    "messages
     (play_turns fst snd
        [\<lparr>t_now1 = 100, t_date1 = 102, t_now2 = 100, t_date2 = 102,
          t_prompt = ''Is X safe?'', t_image = None, t_file = None,
          t_answer = Responded 200
                       (Inr (''{}'', ObjectBody (empty_payload\<lparr>final_verdict := Some []\<rparr>)
                                       None))\<rparr>])
     = [user_turn 100 102 ''Is X safe?'',
        (pending_agent_turn 100 102 ''Is X safe?'' None)
          \<lparr>agentResponse :=
             Some (empty_payload\<lparr>user_query := Some ''Is X safe?'', image_data := Some None,
                                 final_verdict := Some []\<rparr>),
           isStreaming := Some False\<rparr>]"
    by (simp add: play_turns_def play_turn_def initial_state_def sendPromptToBackend_start_def
        sendPromptToBackend_settle_def await_response_def res_ok_def merge_answer_def
        processing_timeout_def updateAgentMsg_def user_turn_def pending_agent_turn_def
        buildContext_def merge_payload_def spread_def empty_payload_def dec_100 dec_101 Let_def)
  have code:
    "buildContext
       [user_turn 100 102 ''Is X safe?'',
        (pending_agent_turn 100 102 ''Is X safe?'' None)
          \<lparr>agentResponse :=
             Some (empty_payload\<lparr>user_query := Some ''Is X safe?'', image_data := Some None,
                                 final_verdict := Some []\<rparr>),
           isStreaming := Some False\<rparr>]
     = ''PREVIOUS CONVERSATION CONTEXT:'' @ [CHR 0x0A]
       @ ''User: Is X safe?'' @ [CHR 0x0A]
       @ ''AI Verdict: Unknown'' @ [CHR 0x0A]
       @ [CHR 0x0A] @ ''CURRENT QUESTION:'' @ [CHR 0x0A]"
    by (simp add: buildContext_def context_line_def user_turn_def pending_agent_turn_def)
  have spec:
    "''PREVIOUS CONVERSATION CONTEXT:'' @ [CHR 0x0A]
       @ concat (map summary_line
           [user_turn 100 102 ''Is X safe?'',
            (pending_agent_turn 100 102 ''Is X safe?'' None)
              \<lparr>agentResponse :=
                 Some (empty_payload\<lparr>user_query := Some ''Is X safe?'', image_data := Some None,
                                     final_verdict := Some []\<rparr>),
               isStreaming := Some False\<rparr>])
       @ [CHR 0x0A] @ ''CURRENT QUESTION:'' @ [CHR 0x0A]
     = ''PREVIOUS CONVERSATION CONTEXT:'' @ [CHR 0x0A]
       @ ''User: Is X safe?'' @ [CHR 0x0A]
       @ ''AI Verdict: '' @ [CHR 0x0A]
       @ [CHR 0x0A] @ ''CURRENT QUESTION:'' @ [CHR 0x0A]"
    by (simp add: summary_line_def user_turn_def pending_agent_turn_def)
  have differ:
    "buildContext
       [user_turn 100 102 ''Is X safe?'',
        (pending_agent_turn 100 102 ''Is X safe?'' None)
          \<lparr>agentResponse :=
             Some (empty_payload\<lparr>user_query := Some ''Is X safe?'', image_data := Some None,
                                 final_verdict := Some []\<rparr>),
           isStreaming := Some False\<rparr>]
     \<noteq> ''PREVIOUS CONVERSATION CONTEXT:'' @ [CHR 0x0A]
       @ concat (map summary_line
       [user_turn 100 102 ''Is X safe?'',
        (pending_agent_turn 100 102 ''Is X safe?'' None)
          \<lparr>agentResponse :=
             Some (empty_payload\<lparr>user_query := Some ''Is X safe?'', image_data := Some None,
                                 final_verdict := Some []\<rparr>),
           isStreaming := Some False\<rparr>])
       @ [CHR 0x0A] @ ''CURRENT QUESTION:'' @ [CHR 0x0A]"
    unfolding code spec by simp
  show ?thesis
    using log code spec differ by blast
qed

section \<open>A response that is not a success\<close>





section \<open>The reveal of the results\<close>




end
